theory Spec2Isabelle
  imports Complex_Main
begin

section \<open>Numbers\<close>

text \<open>
  Python floats are modelled as exact reals and Python ints as unbounded integers.
  Nothing below depends on a rounding step of binary floating point: every bound that is
  proved is a bound of \<open>min\<close>/\<open>max\<close> clamps, and every concrete evaluation is on inputs
  whose float results coincide with the exact ones after truncation.
\<close>

text \<open>Python's \<open>int(x)\<close> on a float truncates toward zero.\<close>

definition py_int :: "real \<Rightarrow> int" where
  "py_int x = (if 0 \<le> x then \<lfloor>x\<rfloor> else \<lceil>x\<rceil>)"

section \<open>Data model of \<open>ConnectionManager\<close>\<close>

type_synonym wallet = string

text \<open>A character dict: \<open>level\<close> and the \<open>resources\<close> dict (resource type to amount).\<close>

record character =
  level :: int
  resources :: "(string \<times> real) list"

text \<open>An entry of the flat \<open>territories\<close> list; generated territories carry no
  \<open>defense\<close> key until a battle or a build writes one.\<close>

record territory =
  territory_id :: string
  controlledBy :: "wallet option"
  territory_defense :: "int option"

record mission =
  mission_id :: string
  progress :: real

text \<open>A temporary buff \<open>{'level': ..., 'expires_at': ...}\<close>.\<close>

record buff =
  buff_level :: real
  expires_at :: int

text \<open>
  An entry of \<open>leverage_data\<close>. The cached bonus fields (\<open>territory_bonus\<close>,
  \<open>resource_bonus\<close>, ...) are written by name, so they are kept as a dict of their own;
  \<open>research\<close> and \<open>temp_buffs\<close> may be absent (\<open>create_character\<close> writes neither).
\<close>

record leverage_profile =
  cached :: "string \<rightharpoonup> real"
  research :: "(string \<times> real) list option"
  temp_buffs :: "(string \<times> buff) list option"

text \<open>The f-string descriptions of the bonus entries, by their arguments.\<close>

datatype description =
    Controlling nat
  | Diversified nat
  | Missions_desc nat nat
  | Level_desc int
  | Achievements_desc nat
  | Technology_advancements
  | Recent_research_deployments

record bonus =
  bonus_value :: real
  bonus_description :: description
  bonus_max :: real
  bonus_progress :: real

text \<open>The keys only the success path returns.\<close>

record leverage_details =
  base_rate :: real
  efficiency :: real
  potential_increase :: real
  temp_buffs_detail :: "(string \<times> buff) list"

text \<open>The dict returned by \<open>calculate_leverage_multiplier\<close>: \<open>total\<close> and \<open>bonuses\<close>
  are always there, the remaining keys on the success path only.\<close>

record leverage_dict =
  total :: real
  bonuses :: "(string \<times> bonus) list"
  details :: "leverage_details option"

text \<open>What the function can return: a dict, or the bare float of its \<open>except\<close> branch.\<close>

datatype leverage_value = Dict leverage_dict | Float real

text \<open>A planet of the universe. Names, positions and resources are carried along
  unchanged by everything below and are left out.\<close>

record planet =
  planet_id :: string
  planet_controlledBy :: "wallet option"
  defense :: int

text \<open>Websockets and asyncio tasks are objects; they are modelled by handles.\<close>

type_synonym websocket = nat
type_synonym task = nat

text \<open>The connection info dict of \<open>active_connections[websocket]\<close>.\<close>

record connection =
  is_connected :: bool
  client_id :: string
  keep_alive_task :: "task option"
  last_ping :: real
  last_pong :: real
  connect_time :: real

text \<open>The arguments a battle task was created with: \<open>source\<close> and \<open>target\<close> are
  references to planet dicts of the universe, modelled by their positions in it.\<close>

record battle_task =
  task_websocket :: websocket
  task_attacker :: wallet
  task_source :: nat
  task_target :: nat
  task_amount :: int
  task_done :: bool

text \<open>
  The \<open>ConnectionManager\<close>. The universe (galaxies, systems, planets) is flattened to
  the list of its planets in iteration order. The last three fields are the runtime
  objects the manager holds references to: the battle tasks created by
  \<open>asyncio.create_task\<close> (a task handle is its position in \<open>battle_tasks\<close>), the
  websockets that were closed and the keep-alive tasks that were cancelled.
\<close>

record manager =
  characters :: "wallet \<rightharpoonup> character"
  territories :: "territory list"
  missions :: "wallet \<rightharpoonup> mission list"
  achievements :: "wallet \<rightharpoonup> string list"
  leverage_data :: "wallet \<rightharpoonup> leverage_profile"
  universe :: "planet list"
  active_connections :: "websocket \<rightharpoonup> connection"
  connection_count :: int
  last_game_state_send :: "wallet \<rightharpoonup> real"
  game_state_throttle_seconds :: real
  active_battles :: "string \<rightharpoonup> task"
  battle_tasks :: "battle_task list"
  closed :: "websocket set"
  cancelled :: "task set"

section \<open>The scoring engine: \<open>calculate_leverage_multiplier\<close>\<close>

text \<open>\<open>if v > 0: bonuses[k] = {"value": v, "description": d, "max": cap, "progress": v / cap}\<close>;
  the keys are distinct, so the assignment appends.\<close>

definition add_bonus ::
  "string \<Rightarrow> real \<Rightarrow> description \<Rightarrow> real \<Rightarrow> (string \<times> bonus) list \<Rightarrow> (string \<times> bonus) list" where
  "add_bonus k v d cap bs =
     (if v > 0
      then bs @ [(k, \<lparr>bonus_value = v, bonus_description = d, bonus_max = cap,
                      bonus_progress = v / cap\<rparr>)]
      else bs)"

text \<open>The loop over \<open>data['research']\<close>: \<open>research_total += float(v or 0)\<close>.\<close>

fun research_loop :: "(string \<times> real) list \<Rightarrow> real \<Rightarrow> real" where
  "research_loop [] research_total = research_total"
| "research_loop ((k, v) # rest) research_total = research_loop rest (research_total + v)"

text \<open>The loop over \<open>data['temp_buffs']\<close>, with its two accumulators \<open>temp_total\<close> and
  \<open>cleaned\<close>: a buff is kept and counted when \<open>exp > now_ts and lvl > 0\<close>.\<close>

fun temp_buffs_loop ::
  "int \<Rightarrow> (string \<times> buff) list \<Rightarrow> real \<times> (string \<times> buff) list \<Rightarrow> real \<times> (string \<times> buff) list" where
  "temp_buffs_loop now_ts [] acc = acc"
| "temp_buffs_loop now_ts ((k, b) # rest) (temp_total, cleaned) =
     (if expires_at b > now_ts \<and> buff_level b > 0
      then temp_buffs_loop now_ts rest (temp_total + buff_level b, cleaned @ [(k, b)])
      else temp_buffs_loop now_ts rest (temp_total, cleaned))"

text \<open>\<open>data.get(key) or {}\<close>.\<close>

definition or_empty :: "'a list option \<Rightarrow> 'a list" where
  "or_empty d = (case d of None \<Rightarrow> [] | Some xs \<Rightarrow> xs)"

text \<open>
  The body of the function for a wallet with leverage data \<open>data\<close> and a character: the
  seven bonus blocks in the order of the source. It returns the \<open>bonuses\<close> dict, the
  \<open>cleaned\<close> buffs and the mutated \<open>data\<close>.
\<close>

definition leverage_body ::
  "real \<Rightarrow> wallet \<Rightarrow> manager \<Rightarrow> leverage_profile \<Rightarrow> character
     \<Rightarrow> (string \<times> bonus) list \<times> (string \<times> buff) list \<times> leverage_profile" where
  "leverage_body now wallet m data ch =
    (let
       \<comment> \<open>Territory Control Bonus (max 30%)\<close>
       territory_count = length (filter (\<lambda>t. controlledBy t = Some wallet) (territories m));
       territory_bonus = min (real territory_count * 0.05) 0.3;
       c1 = (cached data)(''territory_bonus'' \<mapsto> territory_bonus);
       b1 = add_bonus ''territory'' territory_bonus (Controlling territory_count) 0.3 [];
       \<comment> \<open>Resource Diversity Bonus (max 20%)\<close>
       unique_resources = length (filter (\<lambda>(r, amount). amount > 0) (resources ch));
       resource_bonus = min (real unique_resources * 0.05) 0.2;
       c2 = (if resources ch \<noteq> [] then c1(''resource_bonus'' \<mapsto> resource_bonus) else c1);
       b2 = (if resources ch \<noteq> []
             then add_bonus ''resources'' resource_bonus (Diversified unique_resources) 0.2 b1
             else b1);
       \<comment> \<open>Mission Completion Bonus (max 25%)\<close>
       ms = (case missions m wallet of None \<Rightarrow> [] | Some l \<Rightarrow> l);
       completed_missions = length (filter (\<lambda>x. progress x = 100) ms);
       active_missions = length (filter (\<lambda>x. 0 < progress x \<and> progress x < 100) ms);
       mission_bonus = min (real completed_missions * 0.025 + real active_missions * 0.01) 0.25;
       c3 = (if missions m wallet \<noteq> None then c2(''mission_bonus'' \<mapsto> mission_bonus) else c2);
       b3 = (if missions m wallet \<noteq> None
             then add_bonus ''missions'' mission_bonus
                    (Missions_desc completed_missions active_missions) 0.25 b2
             else b2);
       \<comment> \<open>Level Progression Bonus (max 25%)\<close>
       level_bonus = min (real_of_int (level ch - 1) * 0.05) 0.25;
       c4 = c3(''level_bonus'' \<mapsto> level_bonus);
       b4 = add_bonus ''level'' level_bonus (Level_desc (level ch)) 0.25 b3;
       \<comment> \<open>Special Achievements Bonus (max 20%)\<close>
       achievement_count = length (case achievements m wallet of None \<Rightarrow> [] | Some l \<Rightarrow> l);
       achievement_bonus = min (real achievement_count * 0.02) 0.2;
       c5 = c4(''achievement_bonus'' \<mapsto> achievement_bonus);
       b5 = add_bonus ''achievements'' achievement_bonus (Achievements_desc achievement_count) 0.2 b4;
       \<comment> \<open>Research bonuses (persistent) (max 30%)\<close>
       research_total = min (research_loop (or_empty (research data)) 0.0) 0.3;
       b6 = add_bonus ''research'' research_total Technology_advancements 0.3 b5;
       \<comment> \<open>Temporary buffs with expiry (max 20%)\<close>
       now_ts = py_int now;
       (temp_sum, cleaned) = temp_buffs_loop now_ts (or_empty (temp_buffs data)) (0.0, []);
       temp_total = min temp_sum 0.2;
       b7 = add_bonus ''temp_buffs'' temp_total Recent_research_deployments 0.2 b6
     in (b7, cleaned, data\<lparr>cached := c5, temp_buffs := Some cleaned\<rparr>))"

text \<open>\<open>sum(bonus["value"] for bonus in bonuses.values())\<close>.\<close>

definition sum_values :: "(string \<times> bonus) list \<Rightarrow> real" where
  "sum_values bs = sum_list (map (\<lambda>(k, b). bonus_value b) bs)"

text \<open>
  \<open>calculate_leverage_multiplier(wallet)\<close> at clock reading \<open>now\<close> (\<open>time.time()\<close>).
  \<open>self.leverage_data[wallet]\<close> raises \<open>KeyError\<close> for a wallet without leverage data;
  the \<open>except\<close> branch turns it into the bare float \<open>1.0\<close>. A wallet without a
  character gets the neutral dict. The stored profile is mutated on the success path.
\<close>

definition calculate_leverage_multiplier ::
  "real \<Rightarrow> wallet \<Rightarrow> manager \<Rightarrow> leverage_value \<times> manager" where
  "calculate_leverage_multiplier now wallet m =
    (case leverage_data m wallet of
       None \<Rightarrow> (Float 1.0, m)
     | Some data \<Rightarrow>
        (case characters m wallet of
           None \<Rightarrow> (Dict \<lparr>total = 1.0, bonuses = [], details = None\<rparr>, m)
         | Some ch \<Rightarrow>
            (let (bs, cleaned, data') = leverage_body now wallet m data ch;
                 base = 1.0;
                 total_multiplier = base + sum_values bs;
                 scaled_multiplier = min (max total_multiplier 1.0) 2.0;
                 max_possible = 2.0
             in (Dict \<lparr>total = scaled_multiplier, bonuses = bs,
                       details = Some \<lparr>base_rate = base,
                         efficiency = (scaled_multiplier - 1.0) / (max_possible - 1.0),
                         potential_increase = max_possible - scaled_multiplier,
                         temp_buffs_detail = cleaned\<rparr>\<rparr>,
                 m\<lparr>leverage_data := (leverage_data m)(wallet \<mapsto> data')\<rparr>))))"

section \<open>Outbound messages\<close>

record game_state_payload =
  gs_character :: character
  gs_territories :: "territory list"
  gs_missions :: "mission list"
  gs_leverageMultiplier :: leverage_value

record battle_started_payload =
  bs_from_id :: string
  bs_to_id :: string
  bs_attackers :: "wallet \<times> int"
  bs_defenders :: "wallet option \<times> int"

record attack_result_payload =
  ar_planet_id :: string
  ar_success :: bool
  ar_new_owner :: "wallet option"
  ar_current_owner :: "wallet option"
  ar_defense :: int
  ar_attack_power :: int
  ar_defense_power :: int
  ar_leverage_used :: real
  ar_attacking_units :: int
  ar_defending_units :: int
  ar_attacker_id :: wallet
  ar_defender_id :: "wallet option"
  ar_battle_duration :: int
  ar_final_attacker_count :: int
  ar_final_defender_count :: int

datatype message =
    Error string
  | Game_state_update game_state_payload
  | Battle_started battle_started_payload
  | Battle_update string "wallet \<times> int" "wallet option \<times> int"
  | Attack_result attack_result_payload

section \<open>The state broadcaster: \<open>send_game_state\<close>\<close>

text \<open>\<open>self.active_connections.get(websocket, {}).get("is_connected")\<close>: how the code asks
  whether a session is active.\<close>

definition session_active :: "manager \<Rightarrow> websocket \<Rightarrow> bool" where
  "session_active m websocket =
     (case active_connections m websocket of None \<Rightarrow> False | Some c \<Rightarrow> is_connected c)"

text \<open>
  \<open>send_game_state(websocket, wallet)\<close>. \<open>current_time\<close> is the clock reading taken at the
  top of the call, \<open>now\<close> the one \<open>calculate_leverage_multiplier\<close> takes, and \<open>send_ok\<close>
  tells whether \<open>websocket.send_json\<close> returns (\<open>False\<close>: it raises, the \<open>except\<close> branch
  logs, and the send time is not recorded). The result is the list of delivered
  messages and the new state.
\<close>

definition send_game_state ::
  "real \<Rightarrow> real \<Rightarrow> bool \<Rightarrow> websocket \<Rightarrow> wallet \<Rightarrow> manager \<Rightarrow> (websocket \<times> message) list \<times> manager" where
  "send_game_state current_time now send_ok websocket wallet m =
    (if (case last_game_state_send m wallet of
           None \<Rightarrow> False
         | Some last_send \<Rightarrow> current_time - last_send < game_state_throttle_seconds m)
     then ([], m)
     else if active_connections m websocket = None then ([], m)
     else (case characters m wallet of
             None \<Rightarrow> ([], m)
           | Some ch \<Rightarrow>
              (let player_territories = filter (\<lambda>t. controlledBy t = Some wallet) (territories m);
                   player_missions = (case missions m wallet of None \<Rightarrow> [] | Some l \<Rightarrow> l);
                   (leverage_multiplier, m1) = calculate_leverage_multiplier now wallet m;
                   state = Game_state_update
                             \<lparr>gs_character = ch, gs_territories = player_territories,
                              gs_missions = player_missions,
                              gs_leverageMultiplier = leverage_multiplier\<rparr>
               in if session_active m1 websocket
                  then (if send_ok
                        then ([(websocket, state)],
                              m1\<lparr>last_game_state_send :=
                                    (last_game_state_send m1)(wallet \<mapsto> current_time)\<rparr>)
                        else ([], m1))
                  else ([], m1))))"

section \<open>The session registry: \<open>disconnect\<close>\<close>

text \<open>
  \<open>disconnect(websocket)\<close>, in the four steps of the source: cancel the keep-alive task,
  mark the session as disconnected and decrement the count, close the websocket, delete
  the registry entry. The exceptions of \<open>cancel\<close>, of awaiting the task and of \<open>close\<close> are
  caught and logged where they arise, so the steps after them always run.
\<close>

definition disconnect :: "websocket \<Rightarrow> manager \<Rightarrow> manager" where
  "disconnect websocket m =
    (case active_connections m websocket of
       None \<Rightarrow> m
     | Some c \<Rightarrow>
        (let m1 = (case keep_alive_task c of
                     None \<Rightarrow> m
                   | Some k \<Rightarrow> m\<lparr>cancelled := insert k (cancelled m)\<rparr>);
             m2 = m1\<lparr>active_connections :=
                        (active_connections m1)(websocket \<mapsto> c\<lparr>is_connected := False\<rparr>),
                     connection_count := max 0 (connection_count m1 - 1)\<rparr>;
             m3 = m2\<lparr>closed := insert websocket (closed m2)\<rparr>
         in m3\<lparr>active_connections := (active_connections m3)(websocket := None)\<rparr>))"

section \<open>The combat resolver inside \<open>_simulate_battle\<close>\<close>

record outcome =
  success :: bool
  attacker_survivors :: int
  defender_survivors :: int

text \<open>\<open>power_ratio = attacker_count * a_total / max(1, defender_count)\<close>.\<close>

definition power_ratio :: "int \<Rightarrow> real \<Rightarrow> int \<Rightarrow> real" where
  "power_ratio attacker_count a_total defender_count =
     (real_of_int attacker_count * a_total) / real_of_int (max 1 defender_count)"

text \<open>
  The four tiers of the \<open>if\<close>/\<open>elif\<close> chain. \<open>rnd\<close> is the value \<open>random.random()\<close>
  returns; the first tier does not call it.
\<close>

definition combat_outcome :: "int \<Rightarrow> int \<Rightarrow> real \<Rightarrow> real \<Rightarrow> outcome" where
  "combat_outcome attacker_count defender_count ratio rnd =
    (if ratio \<ge> 2.0 then
       \<lparr>success = True,
        attacker_survivors = max 1 (py_int (real_of_int attacker_count * 0.7)),
        defender_survivors = 0\<rparr>
     else if ratio \<ge> 1.5 then
       (let s = (rnd < 0.85) in
        \<lparr>success = s,
         attacker_survivors = (if s then max 1 (py_int (real_of_int attacker_count * 0.5))
                               else max 0 (py_int (real_of_int attacker_count * 0.2))),
         defender_survivors = (if s then 0 else max 1 (py_int (real_of_int defender_count * 0.6)))\<rparr>)
     else if ratio \<ge> 1.0 then
       (let s = (rnd < 0.45) in
        \<lparr>success = s,
         attacker_survivors = (if s then max 1 (py_int (real_of_int attacker_count * 0.3))
                               else max 0 (py_int (real_of_int attacker_count * 0.1))),
         defender_survivors = (if s then 0 else max 1 (py_int (real_of_int defender_count * 0.4)))\<rparr>)
     else
       (let s = (rnd < 0.15) in
        \<lparr>success = s,
         attacker_survivors = (if s then max 1 (py_int (real_of_int attacker_count * 0.2)) else 0),
         defender_survivors = (if s then 0 else max 1 (py_int (real_of_int defender_count * 0.8)))\<rparr>))"

text \<open>\<open>duration = min(5, max(2, int(10 * (1 / max(0.1, power_ratio)))))\<close>.\<close>

definition battle_duration :: "real \<Rightarrow> int" where
  "battle_duration ratio = min 5 (max 2 (py_int (10 * (1 / max 0.1 ratio))))"

text \<open>The \<open>battle_update\<close> message of iteration \<open>i\<close> of the tick loop.\<close>

definition battle_update ::
  "string \<Rightarrow> wallet \<Rightarrow> wallet option \<Rightarrow> int \<Rightarrow> int \<Rightarrow> outcome \<Rightarrow> int \<Rightarrow> nat \<Rightarrow> message" where
  "battle_update target_id attacker_wallet defender_wallet attacker_count defender_count oc duration i =
    (let progress = (real i + 1) / real_of_int duration;
         current_attackers = py_int (real_of_int attacker_count * (1 - progress)
                                      + real_of_int (attacker_survivors oc) * progress);
         current_defenders = py_int (real_of_int defender_count * (1 - progress)
                                      + real_of_int (defender_survivors oc) * progress)
     in Battle_update target_id (attacker_wallet, current_attackers)
          (defender_wallet, current_defenders))"

section \<open>The world mutation of a resolved battle\<close>

text \<open>\<open>for t in self.territories: if t.get("id") == target_id: ...; break\<close>.\<close>

fun update_first_territory ::
  "string \<Rightarrow> (territory \<Rightarrow> territory) \<Rightarrow> territory list \<Rightarrow> territory list" where
  "update_first_territory target_id f [] = []"
| "update_first_territory target_id f (t # ts) =
     (if territory_id t = target_id then f t # ts
      else t # update_first_territory target_id f ts)"

text \<open>
  The block after the tick loop: \<open>target\<close> is the reference to the target planet, \<open>oc\<close>
  the outcome computed before the ticks. It returns \<open>final_owner\<close> and \<open>final_defense\<close>
  with the mutated state. The planet is read here, when the block runs.
\<close>

definition apply_outcome ::
  "nat \<Rightarrow> wallet \<Rightarrow> outcome \<Rightarrow> manager \<Rightarrow> (wallet option \<times> int) \<times> manager" where
  "apply_outcome target attacker_wallet oc m =
    (let tp = universe m ! target;
         target_id = planet_id tp
     in if success oc then
          (let final_defense = max 1 (py_int (real_of_int (attacker_survivors oc) / 20))
           in ((Some attacker_wallet, final_defense),
               m\<lparr>universe := (universe m)[target :=
                      tp\<lparr>planet_controlledBy := Some attacker_wallet, defense := final_defense\<rparr>],
                  territories := update_first_territory target_id
                      (\<lambda>t. t\<lparr>controlledBy := Some attacker_wallet,
                               territory_defense := Some final_defense\<rparr>) (territories m)\<rparr>))
        else
          (let final_defense = max 1 (defense tp - 1)
           in ((planet_controlledBy tp, final_defense),
               m\<lparr>universe := (universe m)[target := tp\<lparr>defense := final_defense\<rparr>],
                  territories := update_first_territory target_id
                      (\<lambda>t. t\<lparr>territory_defense := Some final_defense\<rparr>) (territories m)\<rparr>)))"

section \<open>The battle coordinator: \<open>_simulate_battle\<close> and \<open>attack_planet\<close>\<close>

text \<open>
  What the environment decides during one run of \<open>_simulate_battle\<close>: which
  \<open>send_json\<close> of the battle body raises first, if any (send \<open>0\<close> is \<open>battle_started\<close>,
  sends \<open>1..duration\<close> are the ticks, send \<open>duration + 1\<close> is \<open>attack_result\<close>), the
  clock readings, the random sample, and whether the final \<open>send_game_state\<close> gets
  through.
\<close>

record battle_env =
  env_fail_at :: "nat option"
  env_now :: real
  env_rnd :: real
  env_state_time :: real
  env_state_now :: real
  env_state_send_ok :: bool

text \<open>The \<open>finally\<close> clause: \<open>if target_id in self.active_battles: del ...\<close>.\<close>

definition finish_battle :: "string \<Rightarrow> manager \<Rightarrow> manager" where
  "finish_battle target_id m = m\<lparr>active_battles := (active_battles m)(target_id := None)\<rparr>"

text \<open>
  \<open>_simulate_battle\<close>, run from its first statement to the end of its \<open>finally\<close> clause.
  A \<open>send_json\<close> that raises ends the \<open>try\<close> body at that point (the \<open>except\<close> branch
  logs); \<open>send_game_state\<close> catches its own exceptions.
\<close>

definition simulate_battle ::
  "battle_env \<Rightarrow> websocket \<Rightarrow> wallet \<Rightarrow> nat \<Rightarrow> nat \<Rightarrow> int \<Rightarrow> manager
     \<Rightarrow> (websocket \<times> message) list \<times> manager" where
  "simulate_battle env websocket attacker_wallet source target attacker_count m =
    (let tp = universe m ! target;
         target_id = planet_id tp;
         defender_wallet = planet_controlledBy tp;
         defender_count = defense tp * 40;
         initial_attackers = attacker_count;
         initial_defenders = defender_count;
         initial_defense = defense tp;
         started = Battle_started
            \<lparr>bs_from_id = planet_id (universe m ! source), bs_to_id = target_id,
             bs_attackers = (attacker_wallet, attacker_count),
             bs_defenders = (defender_wallet, defender_count)\<rparr>
     in if env_fail_at env = Some 0 then ([], finish_battle target_id m)
        else
         (let (a_mult, m1) = calculate_leverage_multiplier (env_now env) attacker_wallet m;
              a_total = (case a_mult of Dict d \<Rightarrow> total d | Float x \<Rightarrow> 1.0);
              ratio = power_ratio attacker_count a_total defender_count;
              oc = combat_outcome attacker_count defender_count ratio (env_rnd env);
              duration = battle_duration ratio;
              updates = map (battle_update target_id attacker_wallet defender_wallet
                               attacker_count defender_count oc duration) [0..<nat duration]
          in case (case env_fail_at env of
                     None \<Rightarrow> None
                   | Some j \<Rightarrow> if j \<le> nat duration then Some j else None) of
               Some j \<Rightarrow>
                 (map (Pair websocket) (started # take (j - 1) updates),
                  finish_battle target_id m1)
             | None \<Rightarrow>
                 (let ((final_owner, final_defense), m2) = apply_outcome target attacker_wallet oc m1;
                      result = Attack_result
                        \<lparr>ar_planet_id = target_id, ar_success = success oc,
                         ar_new_owner = (if success oc then final_owner else None),
                         ar_current_owner = final_owner,
                         ar_defense = final_defense,
                         ar_attack_power = py_int (a_total * 100),
                         ar_defense_power = initial_defense,
                         ar_leverage_used = a_total,
                         ar_attacking_units = initial_attackers,
                         ar_defending_units = initial_defenders,
                         ar_attacker_id = attacker_wallet,
                         ar_defender_id = defender_wallet,
                         ar_battle_duration = duration,
                         ar_final_attacker_count = attacker_survivors oc,
                         ar_final_defender_count = defender_survivors oc\<rparr>
                  in if env_fail_at env = Some (nat duration + 1)
                     then (map (Pair websocket) (started # updates), finish_battle target_id m2)
                     else
                      (let (sent, m3) = send_game_state (env_state_time env) (env_state_now env)
                                          (env_state_send_ok env) websocket attacker_wallet m2
                       in (map (Pair websocket) (started # updates @ [result]) @ sent,
                           finish_battle target_id m3)))))"

text \<open>The \<open>amount\<close> field of an \<open>attack_planet\<close> message: absent (the default \<open>20\<close>
  applies), a number, or something \<open>int()\<close> rejects.\<close>

datatype amount_field = Amount_missing | Amount int | Amount_invalid

record attack_message =
  msg_from_id :: "string option"
  msg_planet_id :: "string option"
  msg_amount :: amount_field

text \<open>The planet search of \<open>attack_planet\<close>: the loop has no \<open>break\<close>, so the last planet
  with the id wins. \<open>i\<close> is the position of the head of the remaining list.\<close>

fun find_planet_loop :: "string option \<Rightarrow> planet list \<Rightarrow> nat \<Rightarrow> nat option \<Rightarrow> nat option" where
  "find_planet_loop pid [] i found = found"
| "find_planet_loop pid (p # ps) i found =
     find_planet_loop pid ps (Suc i) (if Some (planet_id p) = pid then Some i else found)"

definition find_planet :: "string option \<Rightarrow> planet list \<Rightarrow> nat option" where
  "find_planet pid ps = find_planet_loop pid ps 0 None"

text \<open>
  \<open>attack_planet(websocket, message)\<close>. Its only \<open>await\<close> expressions are the two error
  sends, so a call that sends nothing runs without a suspension point. The payload of
  an error raised by Python itself is abbreviated to the name of the exception.
\<close>

definition attack_planet ::
  "websocket \<Rightarrow> attack_message \<Rightarrow> manager \<Rightarrow> (websocket \<times> message) list \<times> manager" where
  "attack_planet websocket message m =
    (case active_connections m websocket of
       None \<Rightarrow> ([(websocket, Error ''KeyError'')], m)
     | Some c \<Rightarrow>
        (case (case msg_amount message of
                 Amount_missing \<Rightarrow> Some 20
               | Amount n \<Rightarrow> Some n
               | Amount_invalid \<Rightarrow> None) of
           None \<Rightarrow> ([(websocket, Error ''ValueError'')], m)
         | Some amount \<Rightarrow>
            (case (find_planet (msg_from_id message) (universe m),
                   find_planet (msg_planet_id message) (universe m),
                   msg_planet_id message) of
               (Some source, Some target, Some target_id) \<Rightarrow>
                 (if (case active_battles m target_id of
                        None \<Rightarrow> False
                      | Some k \<Rightarrow> \<not> task_done (battle_tasks m ! k))
                  then ([(websocket, Error ''Battle already in progress at this planet.'')], m)
                  else ([], m\<lparr>battle_tasks := battle_tasks m @
                                  [\<lparr>task_websocket = websocket, task_attacker = client_id c,
                                    task_source = source, task_target = target,
                                    task_amount = amount, task_done = False\<rparr>],
                               active_battles :=
                                  (active_battles m)(target_id \<mapsto> length (battle_tasks m))\<rparr>))
             | _ \<Rightarrow> ([(websocket, Error ''Source or target planet not found'')], m))))"

section \<open>The scheduler's view of battles\<close>

text \<open>
  The event loop runs one coroutine at a time and switches only at an \<open>await\<close>. The
  fields \<open>active_battles\<close> and the tasks' \<open>done()\<close> are written at two places only: the
  insertion in \<open>attack_planet\<close> and the \<open>finally\<close> clause of \<open>_simulate_battle\<close>, after
  which the coroutine returns and the task is done. What \<open>attack_planet\<close> reads besides
  them (the connection, the planet ids) is not written by a battle. So for the battle
  bookkeeping a run of the server is a sequence of these events: an \<open>attack_planet\<close>
  call, or a battle task running to its end. A task that was created and has not
  run to its end is an unfinished battle.
\<close>

datatype event = Attack websocket attack_message | Run_battle task battle_env

definition run_battle :: "task \<Rightarrow> battle_env \<Rightarrow> manager \<Rightarrow> (websocket \<times> message) list \<times> manager" where
  "run_battle k env m =
    (if k < length (battle_tasks m) \<and> \<not> task_done (battle_tasks m ! k)
     then (let t = battle_tasks m ! k;
               (sent, m') = simulate_battle env (task_websocket t) (task_attacker t)
                              (task_source t) (task_target t) (task_amount t) m
           in (sent, m'\<lparr>battle_tasks := (battle_tasks m')[k := t\<lparr>task_done := True\<rparr>]\<rparr>))
     else ([], m))"

fun step :: "event \<Rightarrow> manager \<Rightarrow> manager" where
  "step (Attack websocket message) m = snd (attack_planet websocket message m)"
| "step (Run_battle k env) m = snd (run_battle k env m)"

fun run :: "event list \<Rightarrow> manager \<Rightarrow> manager" where
  "run [] m = m"
| "run (e # es) m = run es (step e m)"

text \<open>The id of the planet a task attacks.\<close>

definition task_target_id :: "manager \<Rightarrow> battle_task \<Rightarrow> string" where
  "task_target_id m t = planet_id (universe m ! task_target t)"

text \<open>The unfinished battles on a target id.\<close>

definition unfinished_battles :: "manager \<Rightarrow> string \<Rightarrow> battle_task list" where
  "unfinished_battles m target_id =
     filter (\<lambda>t. \<not> task_done t \<and> task_target_id m t = target_id) (battle_tasks m)"

section \<open>Notions used in the statements\<close>


text \<open>The test of the buff loop: the buff is kept and counted.\<close>

definition live :: "int \<Rightarrow> string \<times> buff \<Rightarrow> bool" where
  "live now_ts kb = (expires_at (snd kb) > now_ts \<and> buff_level (snd kb) > 0)"

text \<open>A profile without its expired buffs (\<open>expires_at \<le> now\<close>).\<close>

definition drop_expired :: "real \<Rightarrow> leverage_profile \<Rightarrow> leverage_profile" where
  "drop_expired now data =
     data\<lparr>temp_buffs := Some (filter (\<lambda>(k, b). \<not> real_of_int (expires_at b) \<le> now)
                                 (or_empty (temp_buffs data)))\<rparr>"

text \<open>All buffs of a list expire after \<open>now\<close>.\<close>

definition all_unexpired :: "real \<Rightarrow> (string \<times> buff) list \<Rightarrow> bool" where
  "all_unexpired now tb = list_all (\<lambda>(k, b). now < real_of_int (expires_at b)) tb"

subsection \<open>A small server state\<close>

text \<open>
  Player \<open>p\<close> at level 4 holds three resource types and three territories, has one
  buff that expired at second 100 and one that lasts until second 160, owns planet
  \<open>planet-a\<close> and is connected on websocket 1. Planet \<open>planet-b\<close> belongs to a bot, which
  has a character but no leverage data, as \<open>_init_bots\<close> leaves it.
\<close>

definition example_character :: character where
  "example_character =
     \<lparr>level = 4,
      resources = [(''energy'', 10), (''minerals'', 5), (''crystals'', 1), (''gas'', 0)]\<rparr>"

definition example_profile :: leverage_profile where
  "example_profile =
     \<lparr>cached = Map.empty, research = None,
      temp_buffs = Some [(''attack_boost'', \<lparr>buff_level = 0.05, expires_at = 100\<rparr>),
                         (''shield'', \<lparr>buff_level = 0.05, expires_at = 160\<rparr>)]\<rparr>"

definition example_connection :: connection where
  "example_connection =
     \<lparr>is_connected = True, client_id = ''p'', keep_alive_task = Some 7,
      last_ping = 0, last_pong = 0, connect_time = 0\<rparr>"

definition example_manager :: manager where
  "example_manager =
     \<lparr>characters = [''p'' \<mapsto> example_character,
                     ''bot_1'' \<mapsto> \<lparr>level = 1, resources = [(''energy'', 0)]\<rparr>],
      territories =
        [\<lparr>territory_id = ''territory-0'', controlledBy = Some ''p'', territory_defense = None\<rparr>,
         \<lparr>territory_id = ''territory-1'', controlledBy = Some ''p'', territory_defense = Some 1\<rparr>,
         \<lparr>territory_id = ''planet-a'', controlledBy = Some ''p'', territory_defense = None\<rparr>,
         \<lparr>territory_id = ''planet-b'', controlledBy = Some ''bot_1'', territory_defense = None\<rparr>],
      missions = Map.empty,
      achievements = Map.empty,
      leverage_data = [''p'' \<mapsto> example_profile],
      universe =
        [\<lparr>planet_id = ''planet-a'', planet_controlledBy = Some ''p'', defense = 3\<rparr>,
         \<lparr>planet_id = ''planet-b'', planet_controlledBy = Some ''bot_1'', defense = 1\<rparr>],
      active_connections = [1 \<mapsto> example_connection],
      connection_count = 1,
      last_game_state_send = Map.empty,
      game_state_throttle_seconds = 300,
      active_battles = Map.empty,
      battle_tasks = [],
      closed = {},
      cancelled = {}\<rparr>"

text \<open>The target planet as the mutation block of a resolved battle leaves it.\<close>

definition planet_after :: "nat \<Rightarrow> wallet \<Rightarrow> outcome \<Rightarrow> manager \<Rightarrow> planet" where
  "planet_after target attacker_wallet oc m =
     universe (snd (apply_outcome target attacker_wallet oc m)) ! target"

text \<open>The example state after a first successful push to player \<open>p\<close> at time 10.\<close>

definition example_after_send :: manager where
  "example_after_send = snd (send_game_state 10 10 True 1 ''p'' example_manager)"

text \<open>
  The bookkeeping invariant of the battle coordinator: every unfinished task is the one
  registered in \<open>active_battles\<close> under the id of its target planet, and every task's
  target reference points into the universe.
\<close>

definition battle_invariant :: "manager \<Rightarrow> bool" where
  "battle_invariant m =
     (\<forall>k < length (battle_tasks m).
        task_target (battle_tasks m ! k) < length (universe m)
        \<and> (\<not> task_done (battle_tasks m ! k)
             \<longrightarrow> active_battles m (task_target_id m (battle_tasks m ! k)) = Some k))"

text \<open>An attack on \<open>planet-b\<close> from \<open>planet-a\<close> with the default amount, and an
  environment in which every send of the battle succeeds.\<close>

definition example_attack :: attack_message where
  "example_attack =
     \<lparr>msg_from_id = Some ''planet-a'', msg_planet_id = Some ''planet-b'',
      msg_amount = Amount_missing\<rparr>"

definition example_env :: battle_env where
  "example_env =
     \<lparr>env_fail_at = None, env_now = 100, env_rnd = 0.5, env_state_time = 103,
      env_state_now = 103, env_state_send_ok = True\<rparr>"

text \<open>The example state after the attack was accepted.\<close>

definition example_after_attack :: manager where
  "example_after_attack = step (Attack 1 example_attack) example_manager"

section \<open>Properties of the scoring engine\<close>





lemma research_loop_sum: "research_loop rs acc = acc + sum_list (map snd rs)"
  by (induction rs acc rule: research_loop.induct) simp_all

lemma temp_buffs_loop_eq:
  "temp_buffs_loop now_ts tb (t, cl) =
     (t + sum_list (map (\<lambda>kb. buff_level (snd kb)) (filter (live now_ts) tb)),
      cl @ filter (live now_ts) tb)"
  by (induction tb arbitrary: t cl) (auto simp: live_def)

lemma expired_py_int: "real_of_int e \<le> now \<Longrightarrow> e \<le> py_int now"
  unfolding py_int_def by (auto simp: le_floor_iff intro: order_trans[OF _ floor_le_ceiling])



lemma live_not_expired:
  "live (py_int now) kb \<Longrightarrow> \<not> real_of_int (expires_at (snd kb)) \<le> now"
  using expired_py_int[of "expires_at (snd kb)" now] by (auto simp: live_def)

lemma filter_live_drop:
  "filter (live (py_int now)) (filter (\<lambda>(k, b). \<not> real_of_int (expires_at b) \<le> now) tb)
     = filter (live (py_int now)) tb"
  unfolding filter_filter
  by (rule filter_cong) (auto dest: live_not_expired)

lemma temp_loop_drop:
  "temp_buffs_loop (py_int now) (filter (\<lambda>(k, b). \<not> real_of_int (expires_at b) \<le> now) tb) (0, [])
     = temp_buffs_loop (py_int now) tb (0, [])"
  by (simp only: temp_buffs_loop_eq filter_live_drop)

lemma body_drop:
  "fst (leverage_body now wallet (m\<lparr>leverage_data := ld\<rparr>) (drop_expired now data) ch)
     = fst (leverage_body now wallet m data ch)
   \<and> fst (snd (leverage_body now wallet (m\<lparr>leverage_data := ld\<rparr>) (drop_expired now data) ch))
     = fst (snd (leverage_body now wallet m data ch))"
  by (simp add: leverage_body_def Let_def case_prod_beta drop_expired_def or_empty_def temp_loop_drop)

lemma body_cleaned:
  "temp_buffs (snd (snd (leverage_body now wallet m data ch)))
     = Some (filter (live (py_int now)) (or_empty (temp_buffs data)))"
  by (simp add: leverage_body_def Let_def case_prod_beta temp_buffs_loop_eq)

lemma all_unexpired_live: "all_unexpired now (filter (live (py_int now)) tb)"
  using live_not_expired[of now]
  by (auto simp: all_unexpired_def list_all_iff not_le)

text \<open>
  C3. For a known player, the buffs with \<open>expires_at \<le> now\<close> contribute nothing: the
  call returns the same value as on the profile without them. After the call the stored
  profile's \<open>temp_buffs\<close> holds only buffs that expire after \<open>now\<close>.
\<close>

theorem expired_buffs_pruned:
  assumes "leverage_data m wallet = Some data" and "characters m wallet = Some ch"
  shows "fst (calculate_leverage_multiplier now wallet
               (m\<lparr>leverage_data := (leverage_data m)(wallet \<mapsto> drop_expired now data)\<rparr>))
           = fst (calculate_leverage_multiplier now wallet m)
     \<and> (\<exists>data' tb. leverage_data (snd (calculate_leverage_multiplier now wallet m)) wallet = Some data'
           \<and> temp_buffs data' = Some tb \<and> all_unexpired now tb)"
proof
  show "fst (calculate_leverage_multiplier now wallet
               (m\<lparr>leverage_data := (leverage_data m)(wallet \<mapsto> drop_expired now data)\<rparr>))
           = fst (calculate_leverage_multiplier now wallet m)"
    using assms body_drop[of now wallet _ m data ch]
    by (simp add: calculate_leverage_multiplier_def Let_def case_prod_beta)
next
  show "\<exists>data' tb. leverage_data (snd (calculate_leverage_multiplier now wallet m)) wallet = Some data'
           \<and> temp_buffs data' = Some tb \<and> all_unexpired now tb"
    using assms body_cleaned[of now wallet m data ch]
      all_unexpired_live[of now "or_empty (temp_buffs data)"]
    by (simp add: calculate_leverage_multiplier_def Let_def case_prod_beta)
qed

theorem expired_buffs_pruned_witness:
  "leverage_data example_manager ''p'' = Some example_profile
   \<and> characters example_manager ''p'' = Some example_character
   \<and> fst (calculate_leverage_multiplier 100 ''p''
        (example_manager\<lparr>leverage_data :=
            (leverage_data example_manager)(''p'' \<mapsto> drop_expired 100 example_profile)\<rparr>))
       = fst (calculate_leverage_multiplier 100 ''p'' example_manager)
   \<and> (\<exists>data' tb.
         leverage_data (snd (calculate_leverage_multiplier 100 ''p'' example_manager)) ''p'' = Some data'
         \<and> temp_buffs data' = Some tb \<and> all_unexpired 100 tb)"
proof -
  have d: "leverage_data example_manager ''p'' = Some example_profile"
    by (simp add: example_manager_def)
  have c: "characters example_manager ''p'' = Some example_character"
    by (simp add: example_manager_def)
  show ?thesis using d c expired_buffs_pruned[OF d c, of 100] by simp
qed

text \<open>
  C7. A wallet without leverage data makes \<open>self.leverage_data[wallet]\<close> raise, and the
  \<open>except\<close> branch returns the bare float \<open>1.0\<close>, not the neutral dict: an unknown
  player, and a bot (which has a character but no leverage data), get a value of another
  shape than the success path returns.
\<close>

theorem unknown_player_gets_bare_float:
  "fst (calculate_leverage_multiplier 100 ''nobody'' example_manager) = Float 1
   \<and> fst (calculate_leverage_multiplier 100 ''nobody'' example_manager)
       \<noteq> Dict \<lparr>total = 1, bonuses = [], details = None\<rparr>
   \<and> fst (calculate_leverage_multiplier 100 ''bot_1'' example_manager) = Float 1"
  by (simp add: calculate_leverage_multiplier_def example_manager_def)

section \<open>Properties of the combat resolver\<close>


lemma py_int_div20: "1 \<le> n \<Longrightarrow> py_int (real_of_int n / 20) = n div 20"
proof -
  assume "1 \<le> n"
  then have "0 \<le> real_of_int n / 20" by simp
  moreover have "\<lfloor>real_of_int n / real_of_int 20\<rfloor> = n div 20"
    by (simp only: floor_divide_of_int_eq)
  ultimately show ?thesis by (simp add: py_int_def)
qed

lemma success_survivors:
  "success (combat_outcome ac dc ratio rnd) \<Longrightarrow>
     1 \<le> attacker_survivors (combat_outcome ac dc ratio rnd)
     \<and> defender_survivors (combat_outcome ac dc ratio rnd) = 0"
  by (simp add: combat_outcome_def Let_def split: if_splits)

text \<open>
  C4. For the mutation block of a resolved battle, whatever the state it runs in: on
  success the target planet belongs to the attacker, no defender survives and the
  planet's defense is \<open>max(1, attacker_survivors div 20)\<close>; on failure the owner is
  unchanged and the defense is \<open>max(1, defense - 1)\<close>, one less but not below 1. In both
  cases the new defense is at least 1, so never negative.
\<close>

theorem battle_world_mutation:
  assumes "target < length (universe m)"
  shows "(success (combat_outcome ac dc ratio rnd) \<longrightarrow>
            planet_controlledBy (planet_after target attacker (combat_outcome ac dc ratio rnd) m)
              = Some attacker
          \<and> defender_survivors (combat_outcome ac dc ratio rnd) = 0
          \<and> defense (planet_after target attacker (combat_outcome ac dc ratio rnd) m)
              = max 1 (attacker_survivors (combat_outcome ac dc ratio rnd) div 20))
       \<and> (\<not> success (combat_outcome ac dc ratio rnd) \<longrightarrow>
            planet_controlledBy (planet_after target attacker (combat_outcome ac dc ratio rnd) m)
              = planet_controlledBy (universe m ! target)
          \<and> defense (planet_after target attacker (combat_outcome ac dc ratio rnd) m)
              = max 1 (defense (universe m ! target) - 1))
       \<and> 1 \<le> defense (planet_after target attacker (combat_outcome ac dc ratio rnd) m)"
  using assms success_survivors[of ac dc ratio rnd]
  by (auto simp: planet_after_def apply_outcome_def Let_def py_int_div20)

theorem battle_world_mutation_witness:
  "1 < length (universe example_manager)
   \<and> success (combat_outcome 100 40 3.75 0.5)
   \<and> planet_controlledBy (planet_after 1 ''p'' (combat_outcome 100 40 3.75 0.5) example_manager)
        = Some ''p''
   \<and> defense (planet_after 1 ''p'' (combat_outcome 100 40 3.75 0.5) example_manager) = 3
   \<and> \<not> success (combat_outcome 50 120 0.625 0.9)
   \<and> planet_controlledBy (planet_after 0 ''bot_1'' (combat_outcome 50 120 0.625 0.9) example_manager)
        = Some ''p''
   \<and> defense (planet_after 0 ''bot_1'' (combat_outcome 50 120 0.625 0.9) example_manager) = 2"
proof -
  have l1: "1 < length (universe example_manager)" and l0: "0 < length (universe example_manager)"
    by (simp_all add: example_manager_def)
  have s1: "success (combat_outcome 100 40 3.75 0.5)"
    and s2: "\<not> success (combat_outcome 50 120 0.625 0.9)"
    by (simp_all add: combat_outcome_def)
  have a1: "attacker_survivors (combat_outcome 100 40 3.75 0.5) = 70"
    by (simp add: combat_outcome_def py_int_def)
  have d0: "defense (universe example_manager ! 0) = 3"
    and o0: "planet_controlledBy (universe example_manager ! 0) = Some ''p''"
    by (simp_all add: example_manager_def)
  show ?thesis
    using l1 s1 s2 a1 d0 o0
      battle_world_mutation[OF l1, of 100 40 "3.75" "0.5" "''p''"]
      battle_world_mutation[OF l0, of 50 120 "0.625" "0.9" "''bot_1''"]
    by simp
qed




text \<open>
  C6, as the code has it. 100 attackers with multiplier 1.5 against defense 1 (40
  defenders) give ratio 3.75, success, 70 attacker survivors, no defender survivor, and
  a duration of \<open>min(5, max(2, int(10 * (1 / 3.75)))) = 2\<close> ticks: \<open>int\<close> truncates 2.66
  to 2.
\<close>

theorem scenario_overwhelming:
  "power_ratio 100 1.5 (1 * 40) = 3.75
   \<and> combat_outcome 100 (1 * 40) (power_ratio 100 1.5 (1 * 40)) rnd
       = \<lparr>success = True, attacker_survivors = 70, defender_survivors = 0\<rparr>
   \<and> battle_duration (power_ratio 100 1.5 (1 * 40)) = 2
   \<and> battle_duration ratio = min 5 (max 2 (py_int (10 * (1 / max 0.1 ratio))))"
  by (simp add: power_ratio_def combat_outcome_def battle_duration_def py_int_def)

text \<open>C6, as the claim states it, fails: the tick count of the scenario is not 3.\<close>

theorem scenario_duration_not_three:
  "battle_duration (power_ratio 100 1.5 (1 * 40)) \<noteq> 3"
  by (simp add: power_ratio_def battle_duration_def py_int_def)

text \<open>
  C10. The winning side keeps at least one unit: the attacker after a success, the
  defender after a failure, whatever the starting counts.
\<close>

theorem winner_keeps_one:
  "(success (combat_outcome ac dc ratio rnd)
      \<longrightarrow> 1 \<le> attacker_survivors (combat_outcome ac dc ratio rnd))
   \<and> (\<not> success (combat_outcome ac dc ratio rnd)
      \<longrightarrow> 1 \<le> defender_survivors (combat_outcome ac dc ratio rnd))"
  by (simp add: combat_outcome_def Let_def)

text \<open>With starting counts of 0 the survivor is more than the tier's fraction of 0.\<close>

theorem winner_keeps_one_witness:
  "success (combat_outcome 0 0 (power_ratio 0 1 0) 0.1)
   \<and> 1 \<le> attacker_survivors (combat_outcome 0 0 (power_ratio 0 1 0) 0.1)
   \<and> 0.2 * real_of_int 0 < real_of_int (attacker_survivors (combat_outcome 0 0 (power_ratio 0 1 0) 0.1))
   \<and> \<not> success (combat_outcome 1 0 (power_ratio 1 1 0) 0.9)
   \<and> 1 \<le> defender_survivors (combat_outcome 1 0 (power_ratio 1 1 0) 0.9)
   \<and> 0.4 * real_of_int 0 < real_of_int (defender_survivors (combat_outcome 1 0 (power_ratio 1 1 0) 0.9))"
proof -
  have s1: "success (combat_outcome 0 0 (power_ratio 0 1 0) 0.1)"
    and s2: "\<not> success (combat_outcome 1 0 (power_ratio 1 1 0) 0.9)"
    by (simp_all add: combat_outcome_def power_ratio_def)
  show ?thesis
    using s1 s2 winner_keeps_one[of 0 0 "power_ratio 0 1 0" "0.1"]
      winner_keeps_one[of 1 0 "power_ratio 1 1 0" "0.9"]
    by simp
qed

section \<open>Properties of the state broadcaster\<close>

lemma calculate_frame:
  "\<exists>ld. snd (calculate_leverage_multiplier now wallet m) = m\<lparr>leverage_data := ld\<rparr>"
proof (cases "leverage_data m wallet")
  case None
  then have "snd (calculate_leverage_multiplier now wallet m) = m\<lparr>leverage_data := leverage_data m\<rparr>"
    by (simp add: calculate_leverage_multiplier_def)
  then show ?thesis by blast
next
  case (Some data)
  show ?thesis
  proof (cases "characters m wallet")
    case None
    with Some have "snd (calculate_leverage_multiplier now wallet m) = m\<lparr>leverage_data := leverage_data m\<rparr>"
      by (simp add: calculate_leverage_multiplier_def)
    then show ?thesis by blast
  next
    case (Some ch)
    with \<open>leverage_data m wallet = Some data\<close>
    have "snd (calculate_leverage_multiplier now wallet m)
            = m\<lparr>leverage_data := (leverage_data m)
                   (wallet \<mapsto> snd (snd (leverage_body now wallet m data ch)))\<rparr>"
      by (simp add: calculate_leverage_multiplier_def Let_def case_prod_beta)
    then show ?thesis by blast
  qed
qed

lemma calculate_fields:
  "active_connections (snd (calculate_leverage_multiplier now wallet m)) = active_connections m"
  "last_game_state_send (snd (calculate_leverage_multiplier now wallet m)) = last_game_state_send m"
  "game_state_throttle_seconds (snd (calculate_leverage_multiplier now wallet m)) = game_state_throttle_seconds m"
  "universe (snd (calculate_leverage_multiplier now wallet m)) = universe m"
  "territories (snd (calculate_leverage_multiplier now wallet m)) = territories m"
  "characters (snd (calculate_leverage_multiplier now wallet m)) = characters m"
  "missions (snd (calculate_leverage_multiplier now wallet m)) = missions m"
  "active_battles (snd (calculate_leverage_multiplier now wallet m)) = active_battles m"
  "battle_tasks (snd (calculate_leverage_multiplier now wallet m)) = battle_tasks m"
  using calculate_frame[of now wallet m] by auto

lemma session_active_calculate:
  "session_active (snd (calculate_leverage_multiplier now wallet m)) ws = session_active m ws"
  by (simp add: session_active_def calculate_fields)

lemma send_delivered:
  assumes "send_game_state t1 n1 ok1 ws1 wallet m = (msg # rest, m1)"
  shows "last_game_state_send m1 wallet = Some t1
       \<and> game_state_throttle_seconds m1 = game_state_throttle_seconds m \<and> rest = []"
  using assms
  by (auto simp: send_game_state_def Let_def case_prod_beta calculate_fields
           split: if_splits option.splits)

text \<open>A push that is not throttled, to an active session of an existing player, with a
  transport that accepts it: one message, built from the state the call runs in.\<close>

lemma send_allowed:
  assumes "case last_game_state_send m wallet of
             None \<Rightarrow> True
           | Some last_send \<Rightarrow> \<not> t - last_send < game_state_throttle_seconds m"
    and "session_active m ws" and "characters m wallet = Some ch"
  shows "send_game_state t n True ws wallet m
           = ([(ws, Game_state_update
                \<lparr>gs_character = ch,
                 gs_territories = filter (\<lambda>t. controlledBy t = Some wallet) (territories m),
                 gs_missions = (case missions m wallet of None \<Rightarrow> [] | Some l \<Rightarrow> l),
                 gs_leverageMultiplier = fst (calculate_leverage_multiplier n wallet m)\<rparr>)],
              (snd (calculate_leverage_multiplier n wallet m))
                \<lparr>last_game_state_send := (last_game_state_send m)(wallet \<mapsto> t)\<rparr>)"
proof -
  from assms(2) have a: "active_connections m ws \<noteq> None"
    by (auto simp: session_active_def split: option.splits)
  from assms(1) have b: "\<not> (case last_game_state_send m wallet of
             None \<Rightarrow> False
           | Some last_send \<Rightarrow> t - last_send < game_state_throttle_seconds m)"
    by (auto split: option.splits)
  show ?thesis
    using a b assms(2,3)
    by (simp add: send_game_state_def Let_def case_prod_beta session_active_calculate
          calculate_fields)
qed

text \<open>
  C8. After a push to a player was delivered at time \<open>t1\<close>, a second push at a time
  \<open>t2\<close> with \<open>t2 - t1\<close> below the throttle window delivers nothing and leaves the state as
  it is, so the two calls deliver exactly one message and nothing is queued. A later
  push that is allowed (the window has passed) to an active session delivers one message
  whose payload is computed from the state at that time.
\<close>

theorem throttled_push_dropped:
  assumes first: "send_game_state t1 n1 ok1 ws1 wallet m = ([msg], m1)"
    and within: "t2 - t1 < game_state_throttle_seconds m1"
    and later: "last_game_state_send m2 wallet = Some t1"
               "\<not> t3 - t1 < game_state_throttle_seconds m2"
               "session_active m2 ws3" "characters m2 wallet = Some ch"
  shows "send_game_state t2 n2 ok2 ws2 wallet m1 = ([], m1)
       \<and> length (fst (send_game_state t1 n1 ok1 ws1 wallet m)
                 @ fst (send_game_state t2 n2 ok2 ws2 wallet m1)) = 1
       \<and> fst (send_game_state t3 n3 True ws3 wallet m2)
           = [(ws3, Game_state_update
                \<lparr>gs_character = ch,
                 gs_territories = filter (\<lambda>t. controlledBy t = Some wallet) (territories m2),
                 gs_missions = (case missions m2 wallet of None \<Rightarrow> [] | Some l \<Rightarrow> l),
                 gs_leverageMultiplier = fst (calculate_leverage_multiplier n3 wallet m2)\<rparr>)]"
proof -
  from send_delivered[OF first] have l: "last_game_state_send m1 wallet = Some t1" by simp
  with within have second: "send_game_state t2 n2 ok2 ws2 wallet m1 = ([], m1)"
    by (simp add: send_game_state_def)
  from later(1,2) have "case last_game_state_send m2 wallet of
             None \<Rightarrow> True
           | Some last_send \<Rightarrow> \<not> t3 - last_send < game_state_throttle_seconds m2"
    by simp
  from send_allowed[OF this later(3,4), of n3] first second show ?thesis by simp
qed

lemma example_first_push:
  "send_game_state 10 10 True 1 ''p'' example_manager
     = ([(1, Game_state_update
           \<lparr>gs_character = example_character,
            gs_territories = filter (\<lambda>t. controlledBy t = Some ''p'') (territories example_manager),
            gs_missions = [],
            gs_leverageMultiplier = fst (calculate_leverage_multiplier 10 ''p'' example_manager)\<rparr>)],
        example_after_send)"
proof -
  have 1: "case last_game_state_send example_manager ''p'' of
             None \<Rightarrow> True
           | Some last_send \<Rightarrow> \<not> 10 - last_send < game_state_throttle_seconds example_manager"
    by (simp add: example_manager_def)
  have 2: "session_active example_manager 1"
    by (simp add: session_active_def example_manager_def example_connection_def)
  have 3: "characters example_manager ''p'' = Some example_character"
    by (simp add: example_manager_def)
  have 4: "missions example_manager ''p'' = None"
    by (simp add: example_manager_def)
  from send_allowed[OF 1 2 3, of 10] 4 show ?thesis
    by (simp add: example_after_send_def)
qed

lemma example_after_send_fields:
  "last_game_state_send example_after_send ''p'' = Some 10"
  "game_state_throttle_seconds example_after_send = 300"
  "session_active example_after_send 1"
  "characters example_after_send ''p'' = Some example_character"
proof -
  have 1: "case last_game_state_send example_manager ''p'' of
             None \<Rightarrow> True
           | Some last_send \<Rightarrow> \<not> 10 - last_send < game_state_throttle_seconds example_manager"
    by (simp add: example_manager_def)
  have 2: "session_active example_manager 1"
    by (simp add: session_active_def example_manager_def example_connection_def)
  have 3: "characters example_manager ''p'' = Some example_character"
    by (simp add: example_manager_def)
  have e: "example_after_send = (snd (calculate_leverage_multiplier 10 ''p'' example_manager))
                \<lparr>last_game_state_send := (last_game_state_send example_manager)(''p'' \<mapsto> 10)\<rparr>"
    using send_allowed[OF 1 2 3, of 10] by (simp add: example_after_send_def)
  show "last_game_state_send example_after_send ''p'' = Some 10"
    by (simp add: e)
  show "game_state_throttle_seconds example_after_send = 300"
    by (simp add: e calculate_fields) (simp add: example_manager_def)
  show "session_active example_after_send 1"
    using 2 by (simp add: e session_active_def calculate_fields)
  show "characters example_after_send ''p'' = Some example_character"
    using 3 by (simp add: e calculate_fields)
qed

theorem throttled_push_dropped_witness:
  "length (fst (send_game_state 10 10 True 1 ''p'' example_manager)) = 1
   \<and> snd (send_game_state 10 10 True 1 ''p'' example_manager) = example_after_send
   \<and> (299 :: real) - 10 < game_state_throttle_seconds example_after_send
   \<and> send_game_state 299 299 True 1 ''p'' example_after_send = ([], example_after_send)
   \<and> length (fst (send_game_state 10 10 True 1 ''p'' example_manager)
             @ fst (send_game_state 299 299 True 1 ''p'' example_after_send)) = 1
   \<and> \<not> (310 :: real) - 10 < game_state_throttle_seconds example_after_send
   \<and> length (fst (send_game_state 310 310 True 1 ''p'' example_after_send)) = 1"
proof -
  have w: "(299 :: real) - 10 < game_state_throttle_seconds example_after_send"
    and a: "\<not> (310 :: real) - 10 < game_state_throttle_seconds example_after_send"
    by (simp_all add: example_after_send_fields)
  from throttled_push_dropped[OF example_first_push w example_after_send_fields(1) a
      example_after_send_fields(3,4), of 299 True 1 310]
    example_first_push w a
  show ?thesis by simp
qed

section \<open>Properties of the session registry\<close>

text \<open>
  C9. \<open>disconnect\<close> is idempotent: a second call changes nothing. For a registered
  session one call removes it from the registry, makes the session inactive for every
  later check, closes its websocket, lowers the connection count by one (not below 0)
  and cancels its keep-alive task when it has one.
\<close>

theorem disconnect_idempotent:
  "disconnect ws (disconnect ws m) = disconnect ws m
   \<and> (\<forall>c. active_connections m ws = Some c \<longrightarrow>
         active_connections (disconnect ws m) ws = None
       \<and> \<not> session_active (disconnect ws m) ws
       \<and> ws \<in> closed (disconnect ws m)
       \<and> connection_count (disconnect ws m) = max 0 (connection_count m - 1)
       \<and> (\<forall>k. keep_alive_task c = Some k \<longrightarrow> k \<in> cancelled (disconnect ws m)))"
  by (auto simp: disconnect_def Let_def session_active_def split: option.splits)

theorem disconnect_idempotent_witness:
  "active_connections example_manager 1 = Some example_connection
   \<and> keep_alive_task example_connection = Some 7
   \<and> disconnect 1 (disconnect 1 example_manager) = disconnect 1 example_manager
   \<and> active_connections (disconnect 1 example_manager) 1 = None
   \<and> \<not> session_active (disconnect 1 example_manager) 1
   \<and> 1 \<in> closed (disconnect 1 example_manager)
   \<and> connection_count (disconnect 1 example_manager) = 0
   \<and> 7 \<in> cancelled (disconnect 1 example_manager)"
proof -
  have c: "active_connections example_manager 1 = Some example_connection"
    and n: "connection_count example_manager = 1"
    by (simp_all add: example_manager_def)
  have k: "keep_alive_task example_connection = Some 7"
    by (simp add: example_connection_def)
  from disconnect_idempotent[of 1 example_manager] c k n show ?thesis by simp
qed

section \<open>Properties of the battle coordinator\<close>

lemma find_planet_loop_sound:
  "find_planet_loop pid ps i found = Some j \<Longrightarrow>
     (found = Some j \<or> (i \<le> j \<and> j < i + length ps \<and> Some (planet_id (ps ! (j - i))) = pid))"
proof (induction ps arbitrary: i found)
  case Nil
  then show ?case by simp
next
  case (Cons p ps)
  from Cons.prems
  have "find_planet_loop pid ps (Suc i) (if Some (planet_id p) = pid then Some i else found) = Some j"
    by simp
  from Cons.IH[OF this]
  show ?case
    by (auto simp: Suc_diff_le split: if_splits)
qed

lemma find_planet_sound:
  "find_planet pid ps = Some j \<Longrightarrow> j < length ps \<and> Some (planet_id (ps ! j)) = pid"
  using find_planet_loop_sound[of pid ps 0 None j] by (simp add: find_planet_def)

lemma send_game_state_fields:
  "active_battles (snd (send_game_state t n ok ws wallet m)) = active_battles m"
  "battle_tasks (snd (send_game_state t n ok ws wallet m)) = battle_tasks m"
  "universe (snd (send_game_state t n ok ws wallet m)) = universe m"
  by (simp_all add: send_game_state_def Let_def case_prod_beta calculate_fields
        split: option.splits)

lemma planet_ids_update:
  "i < length ps \<Longrightarrow> planet_id p = planet_id (ps ! i) \<Longrightarrow>
     map planet_id (ps[i := p]) = map planet_id ps"
  by (simp add: map_update list_update_same_conv)

lemma apply_outcome_fields:
  "active_battles (snd (apply_outcome target attacker oc m)) = active_battles m"
  "battle_tasks (snd (apply_outcome target attacker oc m)) = battle_tasks m"
  "target < length (universe m) \<Longrightarrow>
     map planet_id (universe (snd (apply_outcome target attacker oc m))) = map planet_id (universe m)"
  by (simp_all add: apply_outcome_def Let_def planet_ids_update)

text \<open>What a run of \<open>_simulate_battle\<close> does to the bookkeeping: it leaves the tasks and
  the planet ids alone and deletes the entry of its target id, on every path.\<close>

lemma simulate_battle_frame:
  assumes "target < length (universe m)"
  shows "battle_tasks (snd (simulate_battle env ws attacker source target n m)) = battle_tasks m"
    and "map planet_id (universe (snd (simulate_battle env ws attacker source target n m)))
           = map planet_id (universe m)"
    and "active_battles (snd (simulate_battle env ws attacker source target n m))
           = (active_battles m)(planet_id (universe m ! target) := None)"
  using assms
  by (simp_all add: simulate_battle_def Let_def case_prod_beta finish_battle_def
        calculate_fields send_game_state_fields apply_outcome_fields
        split: option.splits)

text \<open>\<open>attack_planet\<close> either sends one error and changes nothing, or sends nothing and
  appends one unfinished task, registered under the target id of the message.\<close>

lemma attack_planet_cases:
  "(\<exists>err. attack_planet ws message m = ([(ws, Error err)], m))
   \<or> (\<exists>c amount source target target_id.
         active_connections m ws = Some c
         \<and> find_planet (msg_from_id message) (universe m) = Some source
         \<and> find_planet (Some target_id) (universe m) = Some target
         \<and> msg_planet_id message = Some target_id
         \<and> \<not> (case active_battles m target_id of
                  None \<Rightarrow> False
                | Some k \<Rightarrow> \<not> task_done (battle_tasks m ! k))
         \<and> attack_planet ws message m =
             ([], m\<lparr>battle_tasks := battle_tasks m @
                       [\<lparr>task_websocket = ws, task_attacker = client_id c,
                         task_source = source, task_target = target,
                         task_amount = amount, task_done = False\<rparr>],
                    active_battles :=
                       (active_battles m)(target_id \<mapsto> length (battle_tasks m))\<rparr>))"
  by (auto simp: attack_planet_def split: option.splits amount_field.splits)

lemma attack_planet_rejects:
  assumes "active_battles m target_id = Some k" and "\<not> task_done (battle_tasks m ! k)"
    and "msg_planet_id message = Some target_id"
  shows "\<exists>err. attack_planet ws message m = ([(ws, Error err)], m)"
  using assms attack_planet_cases[of ws message m] by auto

lemma invariant_attack:
  assumes "battle_invariant m"
  shows "battle_invariant (snd (attack_planet ws message m))"
proof -
  from attack_planet_cases[of ws message m] show ?thesis
  proof (elim disjE exE conjE)
    fix err assume "attack_planet ws message m = ([(ws, Error err)], m)"
    with assms show ?thesis by simp
  next
    fix c amount source target target_id
    assume accepted:
        "find_planet (Some target_id) (universe m) = Some target"
        "\<not> (case active_battles m target_id of
                  None \<Rightarrow> False
                | Some k \<Rightarrow> \<not> task_done (battle_tasks m ! k))"
        "attack_planet ws message m =
             ([], m\<lparr>battle_tasks := battle_tasks m @
                       [\<lparr>task_websocket = ws, task_attacker = client_id c,
                         task_source = source, task_target = target,
                         task_amount = amount, task_done = False\<rparr>],
                    active_battles :=
                       (active_battles m)(target_id \<mapsto> length (battle_tasks m))\<rparr>)"
    from find_planet_sound[OF accepted(1)]
    have t: "target < length (universe m)" and id: "planet_id (universe m ! target) = target_id"
      by simp_all
    let ?new = "\<lparr>task_websocket = ws, task_attacker = client_id c,
                         task_source = source, task_target = target,
                         task_amount = amount, task_done = False\<rparr>"
    let ?m' = "m\<lparr>battle_tasks := battle_tasks m @ [?new],
                  active_battles := (active_battles m)(target_id \<mapsto> length (battle_tasks m))\<rparr>"
    have "battle_invariant ?m'"
      unfolding battle_invariant_def
    proof (intro allI impI conjI)
      fix k assume k: "k < length (battle_tasks ?m')"
      show "task_target (battle_tasks ?m' ! k) < length (universe ?m')"
        using k t assms by (cases "k < length (battle_tasks m)")
          (auto simp: battle_invariant_def nth_append)
    next
      fix k assume k: "k < length (battle_tasks ?m')"
        and u: "\<not> task_done (battle_tasks ?m' ! k)"
      show "active_battles ?m' (task_target_id ?m' (battle_tasks ?m' ! k)) = Some k"
      proof (cases "k < length (battle_tasks m)")
        case True
        with u assms
        have old: "active_battles m (task_target_id m (battle_tasks m ! k)) = Some k"
          and nd: "\<not> task_done (battle_tasks m ! k)"
          by (auto simp: battle_invariant_def nth_append)
        with accepted(2) have "task_target_id m (battle_tasks m ! k) \<noteq> target_id"
          by auto
        with old True show ?thesis
          by (simp add: nth_append task_target_id_def)
      next
        case False
        with k have "k = length (battle_tasks m)" by simp
        with id show ?thesis by (simp add: task_target_id_def)
      qed
    qed
    with accepted(3) show ?thesis by simp
  qed
qed

lemma invariant_run_battle:
  assumes "battle_invariant m"
  shows "battle_invariant (snd (run_battle k env m))"
proof (cases "k < length (battle_tasks m) \<and> \<not> task_done (battle_tasks m ! k)")
  case False
  with assms show ?thesis by (auto simp: run_battle_def)
next
  case True
  let ?t = "battle_tasks m ! k"
  let ?s = "snd (simulate_battle env (task_websocket ?t) (task_attacker ?t)
                   (task_source ?t) (task_target ?t) (task_amount ?t) m)"
  let ?m' = "?s\<lparr>battle_tasks := (battle_tasks ?s)[k := ?t\<lparr>task_done := True\<rparr>]\<rparr>"
  from True assms have tk: "task_target ?t < length (universe m)"
    and reg: "active_battles m (task_target_id m ?t) = Some k"
    by (auto simp: battle_invariant_def)
  note fr = simulate_battle_frame[OF tk, of env "task_websocket ?t" "task_attacker ?t"
      "task_source ?t" "task_amount ?t"]
  have len: "length (universe ?s) = length (universe m)"
    using fr(2) by (metis length_map)
  have ids: "\<And>i. i < length (universe m) \<Longrightarrow> planet_id (universe ?s ! i) = planet_id (universe m ! i)"
    using fr(2) len by (metis nth_map)
  have "battle_invariant ?m'"
    unfolding battle_invariant_def
  proof (intro allI impI conjI)
    fix j assume j: "j < length (battle_tasks ?m')"
    then have jm: "j < length (battle_tasks m)" by (simp add: fr(1))
    show "task_target (battle_tasks ?m' ! j) < length (universe ?m')"
      using jm assms len by (cases "j = k") (auto simp: fr(1) battle_invariant_def)
  next
    fix j assume j: "j < length (battle_tasks ?m')"
      and u: "\<not> task_done (battle_tasks ?m' ! j)"
    from j have jm: "j < length (battle_tasks m)" by (simp add: fr(1))
    from u jm have jk: "j \<noteq> k" by (auto simp: fr(1))
    with u jm have nd: "\<not> task_done (battle_tasks m ! j)" by (simp add: fr(1))
    with jm assms have tj: "task_target (battle_tasks m ! j) < length (universe m)"
      and regj: "active_battles m (task_target_id m (battle_tasks m ! j)) = Some j"
      by (auto simp: battle_invariant_def)
    from regj reg jk have ne: "task_target_id m (battle_tasks m ! j) \<noteq> task_target_id m ?t"
      by auto
    have "task_target_id ?m' (battle_tasks ?m' ! j) = task_target_id m (battle_tasks m ! j)"
      using jk tj ids by (simp add: task_target_id_def fr(1))
    with regj ne show "active_battles ?m' (task_target_id ?m' (battle_tasks ?m' ! j)) = Some j"
      by (simp add: fr(3) task_target_id_def)
  qed
  with True show ?thesis
    by (simp add: run_battle_def Let_def case_prod_beta)
qed

lemma invariant_step: "battle_invariant m \<Longrightarrow> battle_invariant (step e m)"
  by (cases e) (simp_all add: invariant_attack invariant_run_battle)

lemma invariant_run: "battle_invariant m \<Longrightarrow> battle_invariant (run evs m)"
  by (induction evs arbitrary: m) (simp_all add: invariant_step)

lemma filter_at_most_one:
  "(\<forall>i<length xs. \<forall>j<length xs. P (xs ! i) \<longrightarrow> P (xs ! j) \<longrightarrow> i = j)
     \<Longrightarrow> length (filter P xs) \<le> 1"
proof (induction xs)
  case Nil
  then show ?case by simp
next
  case (Cons x xs)
  have tail: "\<forall>i<length xs. \<forall>j<length xs. P (xs ! i) \<longrightarrow> P (xs ! j) \<longrightarrow> i = j"
  proof (intro allI impI)
    fix i j assume "i < length xs" "j < length xs" "P (xs ! i)" "P (xs ! j)"
    with Cons.prems[rule_format, of "Suc i" "Suc j"] show "i = j" by simp
  qed
  show ?case
  proof (cases "P x")
    case False
    with Cons.IH[OF tail] show ?thesis by simp
  next
    case True
    have "\<forall>y \<in> set xs. \<not> P y"
    proof
      fix y assume "y \<in> set xs"
      then obtain j where j: "j < length xs" "xs ! j = y" by (auto simp: in_set_conv_nth)
      show "\<not> P y"
      proof
        assume "P y"
        with Cons.prems[rule_format, of 0 "Suc j"] True j show False by simp
      qed
    qed
    then have "filter P xs = []" by (simp add: filter_empty_conv)
    with True show ?thesis by simp
  qed
qed

lemma invariant_unique:
  assumes "battle_invariant m"
  shows "length (unfinished_battles m target_id) \<le> 1"
  unfolding unfinished_battles_def
proof (rule filter_at_most_one, intro allI impI)
  fix i j
  assume i: "i < length (battle_tasks m)" and j: "j < length (battle_tasks m)"
    and pi: "\<not> task_done (battle_tasks m ! i) \<and> task_target_id m (battle_tasks m ! i) = target_id"
    and pj: "\<not> task_done (battle_tasks m ! j) \<and> task_target_id m (battle_tasks m ! j) = target_id"
  from assms i pi have "active_battles m target_id = Some i"
    by (auto simp: battle_invariant_def)
  moreover from assms j pj have "active_battles m target_id = Some j"
    by (auto simp: battle_invariant_def)
  ultimately show "i = j" by simp
qed

text \<open>
  C2. From a state without battles (\<open>active_battles = {}\<close>, no task), after any sequence
  of \<open>attack_planet\<close> calls and battle runs there is at most one unfinished battle per
  target planet id. In any state, an \<open>attack_planet\<close> on a target id whose registered
  task is not done sends one error and changes nothing, so it starts no battle. Every
  call that sends (the sends are the only suspension points of \<open>attack_planet\<close>) is such
  an error; a call that sends nothing appends one task and registers it under the
  target id in the same uninterrupted step as the check.
\<close>

theorem one_battle_per_target:
  assumes "battle_tasks m0 = []" and "active_battles m0 = Map.empty"
  shows "length (unfinished_battles (run evs m0) target_id) \<le> 1
     \<and> (active_battles m target_id = Some k \<and> \<not> task_done (battle_tasks m ! k)
          \<and> msg_planet_id message = Some target_id
          \<longrightarrow> (\<exists>err. attack_planet ws message m = ([(ws, Error err)], m)))
     \<and> (fst (attack_planet ws message m) \<noteq> []
          \<longrightarrow> (\<exists>err. attack_planet ws message m = ([(ws, Error err)], m)))
     \<and> (fst (attack_planet ws message m) = []
          \<longrightarrow> (\<exists>t tid. msg_planet_id message = Some tid \<and> \<not> task_done t
                \<and> snd (attack_planet ws message m)
                    = m\<lparr>battle_tasks := battle_tasks m @ [t],
                        active_battles := (active_battles m)(tid \<mapsto> length (battle_tasks m))\<rparr>))"
proof (intro conjI)
  from assms have "battle_invariant m0" by (simp add: battle_invariant_def)
  then have "battle_invariant (run evs m0)" by (rule invariant_run)
  then show "length (unfinished_battles (run evs m0) target_id) \<le> 1"
    by (rule invariant_unique)
next
  show "active_battles m target_id = Some k \<and> \<not> task_done (battle_tasks m ! k)
          \<and> msg_planet_id message = Some target_id
          \<longrightarrow> (\<exists>err. attack_planet ws message m = ([(ws, Error err)], m))"
    using attack_planet_rejects[of m target_id k message ws] by blast
next
  show "fst (attack_planet ws message m) \<noteq> []
          \<longrightarrow> (\<exists>err. attack_planet ws message m = ([(ws, Error err)], m))"
    using attack_planet_cases[of ws message m] by auto
next
  show "fst (attack_planet ws message m) = []
          \<longrightarrow> (\<exists>t tid. msg_planet_id message = Some tid \<and> \<not> task_done t
                \<and> snd (attack_planet ws message m)
                    = m\<lparr>battle_tasks := battle_tasks m @ [t],
                        active_battles := (active_battles m)(tid \<mapsto> length (battle_tasks m))\<rparr>)"
  proof
    assume e: "fst (attack_planet ws message m) = []"
    from attack_planet_cases[of ws message m]
    show "\<exists>t tid. msg_planet_id message = Some tid \<and> \<not> task_done t
                \<and> snd (attack_planet ws message m)
                    = m\<lparr>battle_tasks := battle_tasks m @ [t],
                        active_battles := (active_battles m)(tid \<mapsto> length (battle_tasks m))\<rparr>"
    proof (elim disjE exE conjE)
      fix err assume "attack_planet ws message m = ([(ws, Error err)], m)"
      with e show ?thesis by simp
    next
      fix c amount source target target_id'
      assume a: "msg_planet_id message = Some target_id'"
        "attack_planet ws message m =
             ([], m\<lparr>battle_tasks := battle_tasks m @
                       [\<lparr>task_websocket = ws, task_attacker = client_id c,
                         task_source = source, task_target = target,
                         task_amount = amount, task_done = False\<rparr>],
                    active_battles :=
                       (active_battles m)(target_id' \<mapsto> length (battle_tasks m))\<rparr>)"
      show ?thesis
        by (rule exI[of _ "\<lparr>task_websocket = ws, task_attacker = client_id c,
                         task_source = source, task_target = target,
                         task_amount = amount, task_done = False\<rparr>"],
            rule exI[of _ target_id'])
           (simp add: a)
    qed
  qed
qed

lemma example_attack_accepted:
  "attack_planet 1 example_attack example_manager
     = ([], example_manager
          \<lparr>battle_tasks := [\<lparr>task_websocket = 1, task_attacker = ''p'', task_source = 0,
                              task_target = 1, task_amount = 20, task_done = False\<rparr>],
           active_battles := [''planet-b'' \<mapsto> 0]\<rparr>)"
  by (simp add: attack_planet_def example_attack_def example_manager_def find_planet_def
        example_connection_def)

lemma example_after_attack_fields:
  "battle_tasks example_after_attack
     = [\<lparr>task_websocket = 1, task_attacker = ''p'', task_source = 0,
          task_target = 1, task_amount = 20, task_done = False\<rparr>]"
  "active_battles example_after_attack ''planet-b'' = Some 0"
  "universe example_after_attack = universe example_manager"
  by (simp_all only: example_after_attack_def step.simps example_attack_accepted snd_conv)
     simp_all

theorem one_battle_per_target_witness:
  "battle_tasks example_manager = [] \<and> active_battles example_manager = Map.empty
   \<and> fst (attack_planet 1 example_attack example_manager) = []
   \<and> active_battles example_after_attack ''planet-b'' = Some 0
   \<and> \<not> task_done (battle_tasks example_after_attack ! 0)
   \<and> msg_planet_id example_attack = Some ''planet-b''
   \<and> (\<exists>err. attack_planet 1 example_attack example_after_attack
                = ([(1, Error err)], example_after_attack))
   \<and> length (unfinished_battles
               (run [Attack 1 example_attack, Attack 1 example_attack] example_manager)
               ''planet-b'') \<le> 1"
proof -
  have t: "battle_tasks example_manager = []" and a: "active_battles example_manager = Map.empty"
    by (simp_all add: example_manager_def)
  have s: "fst (attack_planet 1 example_attack example_manager) = []"
    by (simp only: example_attack_accepted fst_conv)
  have r: "active_battles example_after_attack ''planet-b'' = Some 0"
    and d: "\<not> task_done (battle_tasks example_after_attack ! 0)"
    by (simp_all add: example_after_attack_fields)
  have p: "msg_planet_id example_attack = Some ''planet-b''"
    by (simp add: example_attack_def)
  from one_battle_per_target[OF t a,
      of "[Attack 1 example_attack, Attack 1 example_attack]" "''planet-b''"
         example_after_attack 0 example_attack 1]
    t a s r d p
  show ?thesis by simp
qed

lemma example_second_attack:
  "attack_planet 1 example_attack example_after_attack
     = ([(1, Error ''Battle already in progress at this planet.'')], example_after_attack)"
proof -
  have c: "active_connections example_after_attack 1 = Some example_connection"
    by (simp only: example_after_attack_def step.simps example_attack_accepted snd_conv)
       (simp add: example_manager_def)
  have f: "find_planet (Some ''planet-a'') (universe example_after_attack) = Some 0"
    "find_planet (Some ''planet-b'') (universe example_after_attack) = Some 1"
    by (simp_all add: example_after_attack_fields) (simp_all add: example_manager_def find_planet_def)
  show ?thesis
    using c f example_after_attack_fields(1,2)
    by (simp add: attack_planet_def example_attack_def)
qed

end
